theory Spec2Isabelle
  imports Main
begin

text \<open>
  A shallow embedding of cert-issuer's connectors.py (provider registry, read queries,
  broadcast with retry, the Etherscan connector) and signer.py (the bitcoin and ethereum
  signers, the file secret manager, the scoped signing session, signature verification).
  Python exceptions are values, loops are recursive functions, and everything outside
  the two modules (HTTP endpoints, the local node, the host's network and files, the
  pycoin, pyethereum and python-bitcoinlib routines) is a parameter of the functions
  that use it.
\<close>

section \<open>Exceptions and values\<close>

text \<open>
  Every exception the two modules raise or let through is a value of \<open>pyexc\<close>; a call
  that can raise returns \<open>pyexc + 'a\<close> with \<open>Inl\<close> for the raised exception. All
  constructors stand for subclasses of Python's \<open>Exception\<close>, which is what the
  \<open>except Exception\<close> clauses of the connectors catch.
  \<open>BroadcastErrorOf\<close> is \<open>BroadcastError(last_exception)\<close>, whose argument is the
  remembered exception or \<open>None\<close>.
\<close>

datatype pyexc =
    PyException string
  | KeyError string
  | AttributeError string
  | TypeError string
  | ValueError string
  | IOError string
  | RequestException string
  | LibraryError string
  | ConnectorError string
  | BroadcastError string
  | BroadcastErrorArgs string string
  | BroadcastErrorOf "pyexc option"
  | UnableToSignTxError string
  | UnverifiedSignatureError string
  | UnknownChainError string

text \<open>JSON values as \<open>response.json()\<close> and \<open>json.loads\<close> give them; \<open>JNull\<close> is \<open>None\<close>.\<close>

datatype jval =
    JNull
  | JBool bool
  | JNum int
  | JStr string
  | JArr "jval list"
  | JObj "(string \<times> jval) list"

section \<open>Networks and the provider registry (connectors.py)\<close>

text \<open>
  \<open>cert_schema.Chain\<close> is declared outside the sources. A chain is represented by the
  attributes the code reads from it.
\<close>

datatype BlockchainType = bitcoin | ethereum | mock

record chain =
  chain_name :: string
  blockchain_type :: BlockchainType
  external_display_value :: string

text \<open>The provider classes of connectors.py; \<open>PycoinProvider\<close> is an object of one of
  pycoin's service classes (\<open>InsightProvider\<close>, \<open>ChainSoProvider\<close>, the ones
  \<open>providers_for_config_string\<close> builds), named by a label.\<close>

datatype provider =
    EtherscanBroadcaster string
  | BlockExplorerBroadcaster string
  | BlockcypherBroadcaster string string
  | BlockrIOBroadcaster string
  | BitcoindConnector string
  | PycoinProvider string

fun isinstance_BitcoindConnector :: "provider \<Rightarrow> bool" where
  "isinstance_BitcoindConnector (BitcoindConnector _) = True"
| "isinstance_BitcoindConnector _ = False"

text \<open>A pycoin \<open>Spendable\<close>: the fields its constructor takes (\<open>puzzle_script\<close> is its
  \<open>script\<close>, the locking script of the output).\<close>

record spendable =
  coin_value :: int
  puzzle_script :: string
  tx_hash :: string
  tx_out_index :: nat

text \<open>A bitcoin-like transaction (pycoin \<open>Tx\<close>): its inputs, each with its unlocking
  script, and its serialisation.\<close>

record txin =
  script :: string

record btc_tx =
  txs_in :: "txin list"
  as_hex :: string

text \<open>An HTTP response of the \<open>requests\<close> library: \<open>response.json()\<close> raises when the
  body is not JSON.\<close>

record response =
  status_code :: int
  text_of :: string
  json :: "pyexc + jval"

text \<open>
  \<open>connectors\<close> is the module-level dict from chain to provider list; \<open>connectors[chain]\<close>
  raises \<open>KeyError\<close> on a chain that is not a key. \<open>helpers.to_pycoin_chain\<close> is not
  among the sources: it is a parameter, and it may raise.
\<close>

type_synonym registry = "chain \<rightharpoonup> provider list"

definition get_providers_for_chain ::
  "(chain \<Rightarrow> pyexc + string) \<Rightarrow> registry \<Rightarrow> chain \<Rightarrow> bool \<Rightarrow> pyexc + provider list" where
  "get_providers_for_chain to_pycoin_chain connectors c bitcoind =
     (if bitcoind then
        (case to_pycoin_chain c of
           Inl e \<Rightarrow> Inl e
         | Inr netcode \<Rightarrow> Inr [BitcoindConnector netcode])
      else
        (case connectors c of
           None \<Rightarrow> Inl (KeyError (chain_name c))
         | Some ps \<Rightarrow> Inr ps))"

section \<open>The outside world of the connectors\<close>

text \<open>
  A transaction id as a provider's \<open>broadcast_tx\<close> returns it: a string, or \<open>None\<close>.
  \<open>if tx_id:\<close> is Python's truth test, false for \<open>None\<close> and for the empty string.
\<close>

type_synonym txid = "string option"

fun truthy :: "txid \<Rightarrow> bool" where
  "truthy None = False"
| "truthy (Some s) = (s \<noteq> [])"

text \<open>
  What the code cannot see into: the HTTP endpoints, the local node and the pycoin
  service classes. Every answer depends on the moment of the call, counted as the number
  of provider calls the running operation has made before it (\<open>clock\<close>), so that the same
  provider may answer differently from one attempt to the next.
  \<^item> \<open>requests_get\<close>, \<open>requests_post\<close>: the \<open>requests\<close> library, on a URL (and form data);
  \<^item> \<open>pycoin_hasattr\<close>: whether the pycoin object with this label has the attribute;
  \<^item> \<open>broadcast_exchange\<close>: what \<open>broadcast_tx(tx)\<close> of a bitcoin provider does, namely
    one HTTP or RPC exchange that returns an id or raises;
  \<^item> \<open>spendables_exchange\<close>: the same for \<open>spendables_for_address(address)\<close>;
  \<^item> \<open>pycoin_get_balance\<close>, \<open>pycoin_get_address_nonce\<close>: what calling these two names
    with \<open>(address, api_key)\<close> on a pycoin object does.
\<close>

record world =
  to_pycoin_chain :: "chain \<Rightarrow> pyexc + string"
  connectors :: registry
  requests_get :: "nat \<Rightarrow> string \<Rightarrow> pyexc + response"
  requests_post :: "nat \<Rightarrow> string \<Rightarrow> (string \<times> string) list \<Rightarrow> pyexc + response"
  pycoin_hasattr :: "string \<Rightarrow> string \<Rightarrow> bool"
  broadcast_exchange :: "provider \<Rightarrow> nat \<Rightarrow> btc_tx \<Rightarrow> pyexc + txid"
  spendables_exchange :: "provider \<Rightarrow> nat \<Rightarrow> string \<Rightarrow> pyexc + spendable list"
  pycoin_get_balance :: "string \<Rightarrow> nat \<Rightarrow> string \<Rightarrow> string option \<Rightarrow> pyexc + int"
  pycoin_get_address_nonce :: "string \<Rightarrow> nat \<Rightarrow> string \<Rightarrow> string option \<Rightarrow> pyexc + int"

text \<open>
  \<open>getattr(m, 'broadcast_tx', None)\<close>: every provider class of connectors.py defines
  \<open>broadcast_tx\<close>; \<open>spendables_for_address\<close> is defined by \<open>BitcoindConnector\<close> alone.
\<close>

fun hasattr_broadcast_tx :: "world \<Rightarrow> provider \<Rightarrow> bool" where
  "hasattr_broadcast_tx w (PycoinProvider l) = pycoin_hasattr w l ''broadcast_tx''"
| "hasattr_broadcast_tx w _ = True"

fun hasattr_spendables_for_address :: "world \<Rightarrow> provider \<Rightarrow> bool" where
  "hasattr_spendables_for_address w (PycoinProvider l) =
     pycoin_hasattr w l ''spendables_for_address''"
| "hasattr_spendables_for_address w (BitcoindConnector _) = True"
| "hasattr_spendables_for_address w _ = False"

text \<open>
  pycoin's \<open>service_provider_methods(name, providers)\<close> keeps, in order, the bound method
  \<open>name\<close> of every provider that has one. A bound method is represented by its provider.
\<close>

definition service_provider_methods_broadcast_tx :: "world \<Rightarrow> provider list \<Rightarrow> provider list" where
  "service_provider_methods_broadcast_tx w ps = filter (hasattr_broadcast_tx w) ps"

definition service_provider_methods_spendables :: "world \<Rightarrow> provider list \<Rightarrow> provider list" where
  "service_provider_methods_spendables w ps = filter (hasattr_spendables_for_address w) ps"

text \<open>
  \<open>method_provider(tx)\<close>: \<open>EtherscanBroadcaster.broadcast_tx\<close> takes \<open>(tx, api_token)\<close>, so
  the call with one argument raises \<open>TypeError\<close>.
\<close>

fun call_broadcast_tx :: "world \<Rightarrow> provider \<Rightarrow> nat \<Rightarrow> btc_tx \<Rightarrow> pyexc + txid" where
  "call_broadcast_tx w (EtherscanBroadcaster base_url) k tx =
     Inl (TypeError ''broadcast_tx() missing 1 required positional argument'')"
| "call_broadcast_tx w p k tx = broadcast_exchange w p k tx"

section \<open>Broadcast (BitcoinServiceProviderConnector.broadcast_tx_with_chain)\<close>

definition BROADCAST_RETRY_INTERVAL :: nat where
  "BROADCAST_RETRY_INTERVAL = 30"

definition MAX_BROADCAST_ATTEMPTS :: nat where
  "MAX_BROADCAST_ATTEMPTS = 3"

text \<open>What the operation does to the outside, in order: a provider call, or a sleep.\<close>

datatype event = Called provider | Slept nat

record bstate =
  final_tx_id :: txid
  last_exception :: "pyexc option"
  clock :: nat
  trace :: "event list"

text \<open>
  The body of the inner loop, for one provider. The \<open>raise Exception('Got conflicting
  tx_ids.')\<close> stands inside the \<open>try\<close>, so the \<open>except Exception\<close> of the same
  statement catches it: it becomes \<open>last_exception\<close>, \<open>final_tx_id\<close> keeps the first id,
  and the loop goes on.
\<close>

definition try_provider :: "world \<Rightarrow> btc_tx \<Rightarrow> provider \<Rightarrow> bstate \<Rightarrow> bstate" where
  "try_provider w tx method_provider s =
     (let s1 = s\<lparr>clock := Suc (clock s), trace := trace s @ [Called method_provider]\<rparr> in
      case call_broadcast_tx w method_provider (clock s) tx of
        Inl e \<Rightarrow> s1\<lparr>last_exception := Some e\<rparr>
      | Inr tx_id \<Rightarrow>
          if truthy tx_id then
            (if truthy (final_tx_id s1) \<and> final_tx_id s1 \<noteq> tx_id
             then s1\<lparr>last_exception := Some (PyException ''Got conflicting tx_ids.'')\<rparr>
             else s1\<lparr>final_tx_id := tx_id\<rparr>)
          else s1)"

text \<open>
  The outer loop over \<open>range(0, MAX_BROADCAST_ATTEMPTS)\<close>. The provider list is looked up
  anew in every attempt, outside the \<open>try\<close>: an exception of the lookup leaves the
  function. After the last attempt, \<open>raise BroadcastError(last_exception)\<close>.
\<close>

fun broadcast_attempts ::
  "world \<Rightarrow> btc_tx \<Rightarrow> chain \<Rightarrow> bool \<Rightarrow> nat list \<Rightarrow> bstate \<Rightarrow> (pyexc + txid) \<times> bstate" where
  "broadcast_attempts w tx c bitcoind [] s = (Inl (BroadcastErrorOf (last_exception s)), s)"
| "broadcast_attempts w tx c bitcoind (attempt_number # rest) s =
     (case get_providers_for_chain (to_pycoin_chain w) (connectors w) c bitcoind of
        Inl e \<Rightarrow> (Inl e, s)
      | Inr ps \<Rightarrow>
          (let s' = fold (try_provider w tx) (service_provider_methods_broadcast_tx w ps) s in
           if truthy (final_tx_id s') then (Inr (final_tx_id s'), s')
           else broadcast_attempts w tx c bitcoind rest
                  (s'\<lparr>trace := trace s' @ [Slept BROADCAST_RETRY_INTERVAL]\<rparr>)))"

definition broadcast_tx_with_chain ::
  "world \<Rightarrow> btc_tx \<Rightarrow> chain \<Rightarrow> bool \<Rightarrow> (pyexc + txid) \<times> bstate" where
  "broadcast_tx_with_chain w tx bitcoin_chain bitcoind =
     broadcast_attempts w tx bitcoin_chain bitcoind [0..<MAX_BROADCAST_ATTEMPTS]
       \<lparr>final_tx_id = None, last_exception = None, clock = 0, trace = []\<rparr>"

section \<open>The Etherscan connector (EtherscanBroadcaster)\<close>

text \<open>
  An API token and an API key are a string or \<open>None\<close>; \<open>if api_token:\<close> is the truth test
  \<open>truthy\<close>. Python's \<open>int(x)\<close> and \<open>int(x, 0)\<close> on a JSON value are builtins, taken as
  parameters (\<open>builtin_int\<close>, \<open>builtin_int_base0\<close>): they raise on what they cannot read.
\<close>

datatype http_request = HttpGet string | HttpPost string "(string \<times> string) list"

record builtins =
  builtin_int :: "jval \<Rightarrow> pyexc + int"
  builtin_int_base0 :: "jval \<Rightarrow> pyexc + int"

text \<open>\<open>d.get(key, None)\<close>: on a dict the value or \<open>None\<close>; any other JSON value has no
  \<open>get\<close>.\<close>

fun json_get :: "jval \<Rightarrow> string \<Rightarrow> pyexc + jval" where
  "json_get (JObj kvs) key = Inr (case map_of kvs key of None \<Rightarrow> JNull | Some v \<Rightarrow> v)"
| "json_get _ key = Inl (AttributeError ''get'')"

text \<open>\<open>response.json().get(key, None)\<close>.\<close>

definition response_json_get :: "response \<Rightarrow> string \<Rightarrow> pyexc + jval" where
  "response_json_get r key = (case json r of Inl e \<Rightarrow> Inl e | Inr j \<Rightarrow> json_get j key)"

text \<open>
  The statement \<open>'&apikey=%s' % api_token\<close> under \<open>if api_token:\<close> builds a string and
  drops it: \<open>apikey_suffix\<close> is that string, bound to nothing below.
\<close>

fun apikey_suffix :: "string option \<Rightarrow> string" where
  "apikey_suffix None = []"
| "apikey_suffix (Some api_token) = (if api_token \<noteq> [] then ''&apikey='' @ api_token else [])"

text \<open>Each operation returns the HTTP requests it issued and its result.\<close>

definition Etherscan_broadcast_tx ::
  "world \<Rightarrow> nat \<Rightarrow> string \<Rightarrow> string \<Rightarrow> string option \<Rightarrow> http_request list \<times> (pyexc + jval)" where
  "Etherscan_broadcast_tx w k base_url tx api_token =
     (let tx_hex = tx;
          broadcast_url = base_url @ ''?module=proxy&action=eth_sendRawTransaction'';
          _ = apikey_suffix api_token;
          request = HttpPost broadcast_url [(''hex'', tx_hex)]
      in case requests_post w k broadcast_url [(''hex'', tx_hex)] of
           Inl e \<Rightarrow> ([request], Inl e)
         | Inr response \<Rightarrow>
             if status_code response = 200
             then ([request], response_json_get response ''result'')
             else ([request], Inl (BroadcastError (text_of response))))"

definition Etherscan_get_balance ::
  "builtins \<Rightarrow> world \<Rightarrow> nat \<Rightarrow> string \<Rightarrow> string \<Rightarrow> string option \<Rightarrow>
     http_request list \<times> (pyexc + int)" where
  "Etherscan_get_balance b w k base_url address api_token =
     (let broadcast_url = base_url @ ''?module=account&action=balance'';
          broadcast_url = broadcast_url @ ''&address='' @ address;
          broadcast_url = broadcast_url @ ''&tag=latest'';
          _ = apikey_suffix api_token;
          request = HttpGet broadcast_url
      in case requests_get w k broadcast_url of
           Inl e \<Rightarrow> ([request], Inl e)
         | Inr response \<Rightarrow>
             if status_code response = 200
             then (case response_json_get response ''result'' of
                     Inl e \<Rightarrow> ([request], Inl e)
                   | Inr v \<Rightarrow> ([request], builtin_int b v))
             else ([request], Inl (BroadcastError (text_of response))))"

definition Etherscan_get_address_nonce ::
  "builtins \<Rightarrow> world \<Rightarrow> nat \<Rightarrow> string \<Rightarrow> string \<Rightarrow> string option \<Rightarrow>
     http_request list \<times> (pyexc + int)" where
  "Etherscan_get_address_nonce b w k base_url address api_token =
     (let broadcast_url = base_url @ ''?module=proxy&action=eth_getTransactionCount'';
          broadcast_url = broadcast_url @ ''&address='' @ address;
          broadcast_url = broadcast_url @ ''&tag=latest'';
          _ = apikey_suffix api_token;
          request = HttpGet broadcast_url
      in case requests_get w k broadcast_url of
           Inl e \<Rightarrow> ([request], Inl e)
         | Inr response \<Rightarrow>
             if status_code response = 200
             then (case response_json_get response ''result'' of
                     Inl e \<Rightarrow> ([request], Inl e)
                   | Inr v \<Rightarrow> ([request], builtin_int_base0 b v))
             else ([request],
                   Inl (BroadcastErrorArgs
                          ''Error checking the nonce through the Etherscan API. Error msg: %s''
                          (text_of response))))"

section \<open>Read queries (EthereumServiceProviderConnector, BitcoinServiceProviderConnector)\<close>

record eth_connector =
  ethereum_chain :: chain
  api_key :: "string option"
  local_node :: bool

record btc_connector =
  bitcoin_chain :: chain
  bitcoind :: bool

text \<open>
  \<open>m.get_balance(address, self.api_key)\<close> and \<open>m.get_address_nonce(address, self.api_key)\<close>
  on a provider \<open>m\<close>: of the classes of connectors.py only \<open>EtherscanBroadcaster\<close> has
  these attributes; on the others the attribute lookup raises \<open>AttributeError\<close>.
\<close>

fun call_get_balance ::
  "builtins \<Rightarrow> world \<Rightarrow> provider \<Rightarrow> nat \<Rightarrow> string \<Rightarrow> string option \<Rightarrow> pyexc + int" where
  "call_get_balance b w (EtherscanBroadcaster base_url) k address key =
     snd (Etherscan_get_balance b w k base_url address key)"
| "call_get_balance b w (PycoinProvider l) k address key = pycoin_get_balance w l k address key"
| "call_get_balance b w _ k address key = Inl (AttributeError ''get_balance'')"

fun call_get_address_nonce ::
  "builtins \<Rightarrow> world \<Rightarrow> provider \<Rightarrow> nat \<Rightarrow> string \<Rightarrow> string option \<Rightarrow> pyexc + int" where
  "call_get_address_nonce b w (EtherscanBroadcaster base_url) k address key =
     snd (Etherscan_get_address_nonce b w k base_url address key)"
| "call_get_address_nonce b w (PycoinProvider l) k address key =
     pycoin_get_address_nonce w l k address key"
| "call_get_address_nonce b w _ k address key = Inl (AttributeError ''get_address_nonce'')"

text \<open>The loop of \<open>EthereumServiceProviderConnector.get_balance\<close>: a \<open>BitcoindConnector\<close> is
  passed over without a call; the first provider that returns ends the loop; \<open>return 0\<close>
  after the loop.\<close>

fun eth_get_balance_loop ::
  "builtins \<Rightarrow> world \<Rightarrow> string \<Rightarrow> string option \<Rightarrow> provider list \<Rightarrow> nat \<Rightarrow> int" where
  "eth_get_balance_loop b w address key [] k = 0"
| "eth_get_balance_loop b w address key (m # ms) k =
     (if isinstance_BitcoindConnector m then eth_get_balance_loop b w address key ms k
      else (case call_get_balance b w m k address key of
              Inr balance \<Rightarrow> balance
            | Inl e \<Rightarrow> eth_get_balance_loop b w address key ms (Suc k)))"

definition eth_get_balance :: "builtins \<Rightarrow> world \<Rightarrow> eth_connector \<Rightarrow> string \<Rightarrow> pyexc + int" where
  "eth_get_balance b w self address =
     (case get_providers_for_chain (to_pycoin_chain w) (connectors w)
             (ethereum_chain self) (local_node self) of
        Inl e \<Rightarrow> Inl e
      | Inr ps \<Rightarrow> Inr (eth_get_balance_loop b w address (api_key self) ps 0))"

fun eth_get_address_nonce_loop ::
  "builtins \<Rightarrow> world \<Rightarrow> string \<Rightarrow> string option \<Rightarrow> provider list \<Rightarrow> nat \<Rightarrow> int" where
  "eth_get_address_nonce_loop b w address key [] k = 0"
| "eth_get_address_nonce_loop b w address key (m # ms) k =
     (case call_get_address_nonce b w m k address key of
        Inr nonce \<Rightarrow> nonce
      | Inl e \<Rightarrow> eth_get_address_nonce_loop b w address key ms (Suc k))"

definition eth_get_address_nonce ::
  "builtins \<Rightarrow> world \<Rightarrow> eth_connector \<Rightarrow> string \<Rightarrow> pyexc + int" where
  "eth_get_address_nonce b w self address =
     (case get_providers_for_chain (to_pycoin_chain w) (connectors w)
             (ethereum_chain self) (local_node self) of
        Inl e \<Rightarrow> Inl e
      | Inr ps \<Rightarrow> Inr (eth_get_address_nonce_loop b w address (api_key self) ps 0))"

text \<open>\<open>BitcoinServiceProviderConnector.spendables_for_address\<close>: \<open>return []\<close> after the
  loop.\<close>

fun spendables_loop :: "world \<Rightarrow> string \<Rightarrow> provider list \<Rightarrow> nat \<Rightarrow> spendable list" where
  "spendables_loop w address [] k = []"
| "spendables_loop w address (m # ms) k =
     (case spendables_exchange w m k address of
        Inr spendables \<Rightarrow> spendables
      | Inl e \<Rightarrow> spendables_loop w address ms (Suc k))"

definition spendables_for_address ::
  "world \<Rightarrow> btc_connector \<Rightarrow> string \<Rightarrow> pyexc + spendable list" where
  "spendables_for_address w self bitcoin_address =
     (case get_providers_for_chain (to_pycoin_chain w) (connectors w)
             (bitcoin_chain self) (bitcoind self) of
        Inl e \<Rightarrow> Inl e
      | Inr ps \<Rightarrow>
          Inr (spendables_loop w bitcoin_address (service_provider_methods_spendables w ps) 0))"

text \<open>
  \<open>hash(n)\<close> of a Python int on a 64-bit CPython: the value modulo \<open>2^61 - 1\<close> with the
  sign of \<open>n\<close>, and \<open>-2\<close> in place of \<open>-1\<close>.
\<close>

definition py_hash :: "int \<Rightarrow> int" where
  "py_hash n =
     (let m = 2 ^ 61 - 1;
          h = (if 0 \<le> n then n mod m else - ((- n) mod m))
      in if h = - 1 then - 2 else h)"

text \<open>
  \<open>get_unspent_outputs\<close>: \<open>sorted(spendables, key=lambda x: hash(x.coin_value))\<close> when the
  list is not empty, \<open>None\<close> otherwise. \<open>sorted\<close> is stable, as \<open>sort_key\<close> is.
\<close>

definition get_unspent_outputs ::
  "world \<Rightarrow> btc_connector \<Rightarrow> string \<Rightarrow> pyexc + spendable list option" where
  "get_unspent_outputs w self address =
     (case spendables_for_address w self address of
        Inl e \<Rightarrow> Inl e
      | Inr spendables \<Rightarrow>
          if spendables \<noteq> []
          then Inr (Some (sort_key (\<lambda>x. py_hash (coin_value x)) spendables))
          else Inr None)"

definition btc_get_balance :: "world \<Rightarrow> btc_connector \<Rightarrow> string \<Rightarrow> pyexc + int" where
  "btc_get_balance w self address =
     (case get_unspent_outputs w self address of
        Inl e \<Rightarrow> Inl e
      | Inr None \<Rightarrow> Inr 0
      | Inr (Some spendables) \<Rightarrow>
          if spendables = [] then Inr 0 else Inr (sum_list (map coin_value spendables)))"

section \<open>Signers (signer.py)\<close>

text \<open>
  The cryptography is pycoin's and pyethereum's: the library calls are parameters, and
  each may raise. The secret (\<open>wif\<close>) is a string, or \<open>None\<close> when the secret manager
  holds none.
\<close>

record 'l btc_lib =
  wif_to_secret_exponent :: "string option \<Rightarrow> string list \<Rightarrow> pyexc + int"
  build_hash160_lookup :: "int list \<Rightarrow> pyexc + 'l"
  Tx_sign :: "btc_tx \<Rightarrow> 'l \<Rightarrow> pyexc + btc_tx"

record BitcoinSigner =
  signer_bitcoin_chain :: string
  allowable_wif_prefixes :: "string list"

text \<open>The loop over \<open>signed_transaction.txs_in\<close>: the first input whose script has
  length 0 raises.\<close>

fun check_inputs_signed :: "txin list \<Rightarrow> pyexc option" where
  "check_inputs_signed [] = None"
| "check_inputs_signed (input # rest) =
     (if length (script input) = 0 then Some (UnableToSignTxError ''Unable to sign transaction'')
      else check_inputs_signed rest)"

definition BitcoinSigner_sign_transaction ::
  "'l btc_lib \<Rightarrow> BitcoinSigner \<Rightarrow> string option \<Rightarrow> btc_tx \<Rightarrow> pyexc + btc_tx" where
  "BitcoinSigner_sign_transaction lib self wif transaction_to_sign =
     (case wif_to_secret_exponent lib wif (allowable_wif_prefixes self) of
        Inl e \<Rightarrow> Inl e
      | Inr secret_exponent \<Rightarrow>
          (case build_hash160_lookup lib [secret_exponent] of
             Inl e \<Rightarrow> Inl e
           | Inr lookup \<Rightarrow>
               (case Tx_sign lib transaction_to_sign lookup of
                  Inl e \<Rightarrow> Inl e
                | Inr signed_transaction \<Rightarrow>
                    (case check_inputs_signed (txs_in signed_transaction) of
                       Some e \<Rightarrow> Inl e
                     | None \<Rightarrow> Inr signed_transaction))))"

text \<open>
  The ethereum signer. \<open>transactions.Transaction\<close> is pyethereum's class; what
  \<open>sign_transaction\<close> is given is an object of that class or something else.
\<close>

record 'tx eth_lib =
  Transaction_sign :: "'tx \<Rightarrow> string option \<Rightarrow> int option \<Rightarrow> pyexc + 'tx"
  rlp_encode :: "'tx \<Rightarrow> pyexc + string"
  encode_hex :: "string \<Rightarrow> pyexc + string"

datatype 'tx pyobject = Transaction 'tx | NotATransaction

record EthereumSigner =
  signer_ethereum_chain :: chain
  netcode :: "int option"

definition EthereumSigner_init :: "chain \<Rightarrow> EthereumSigner" where
  "EthereumSigner_init c =
     \<lparr>signer_ethereum_chain = c,
      netcode =
        (if external_display_value c = ''ethereumMainnet'' then Some 1
         else if external_display_value c = ''ethereumRopsten'' then Some 3
         else None)\<rparr>"

text \<open>What \<open>sign_transaction\<close> returns: the hex string of the raw transaction, or the
  dict \<open>{'error': True, 'message': msg}\<close> built in the \<open>except\<close> clause.\<close>

datatype eth_signed = RawTxHex string | ErrorDict pyexc

definition EthereumSigner_sign_transaction ::
  "'tx eth_lib \<Rightarrow> EthereumSigner \<Rightarrow> string option \<Rightarrow> 'tx pyobject \<Rightarrow> pyexc + eth_signed" where
  "EthereumSigner_sign_transaction lib self wif transaction_to_sign =
     (case transaction_to_sign of
        Transaction t \<Rightarrow>
          (case Transaction_sign lib t wif (netcode self) of
             Inl msg \<Rightarrow> Inr (ErrorDict msg)
           | Inr signed \<Rightarrow>
               (case rlp_encode lib signed of
                  Inl msg \<Rightarrow> Inr (ErrorDict msg)
                | Inr raw_tx \<Rightarrow>
                    (case encode_hex lib raw_tx of
                       Inl msg \<Rightarrow> Inr (ErrorDict msg)
                     | Inr raw_tx_hex \<Rightarrow> Inr (RawTxHex raw_tx_hex))))
      | NotATransaction \<Rightarrow>
          Inl (UnableToSignTxError ''You are trying to sign a non transaction type''))"

section \<open>The secret manager and the scoped session (signer.py)\<close>

text \<open>
  The host as the signer module sees it, at each moment \<open>t\<close> (the number of polls made so
  far): \<open>requests.get('http://google.com')\<close>, \<open>os.path.exists\<close>, and opening and reading
  a file.
\<close>

record host =
  google_get :: "nat \<Rightarrow> pyexc + unit"
  path_exists :: "nat \<Rightarrow> string \<Rightarrow> bool"
  read_file :: "nat \<Rightarrow> string \<Rightarrow> pyexc + string"

text \<open>
  \<open>str.strip()\<close> removes the characters for which \<open>str.isspace()\<close> holds. A character
  here is a code point below 256; among these the whitespace characters are U+0009 to
  U+000D, U+001C to U+001F, U+0020, U+0085 and U+00A0.
\<close>

definition is_space :: "char \<Rightarrow> bool" where
  "is_space c =
     (c \<in> set [CHR 0x09, CHR 0x0A, CHR 0x0B, CHR 0x0C, CHR 0x0D,
                CHR 0x1C, CHR 0x1D, CHR 0x1E, CHR 0x1F, CHR 0x20,
                CHR 0x85, CHR 0xA0])"

definition strip :: "string \<Rightarrow> string" where
  "strip s = rev (dropWhile is_space (rev (dropWhile is_space s)))"

definition import_key :: "host \<Rightarrow> nat \<Rightarrow> string \<Rightarrow> pyexc + string" where
  "import_key h t secrets_file_path =
     (case read_file h t secrets_file_path of
        Inl e \<Rightarrow> Inl e
      | Inr content \<Rightarrow> Inr (strip content))"

text \<open>\<open>internet_on\<close> catches \<open>requests.exceptions.RequestException\<close> only.\<close>

definition internet_on :: "host \<Rightarrow> nat \<Rightarrow> pyexc + bool" where
  "internet_on h t =
     (case google_get h t of
        Inr _ \<Rightarrow> Inr True
      | Inl (RequestException _) \<Rightarrow> Inr False
      | Inl e \<Rightarrow> Inl e)"

text \<open>
  The two polling loops (\<open>while True\<close>, \<open>time.sleep(10)\<close> between polls) may run forever:
  \<open>None\<close> is the loop that never ends. A poll takes the host from moment \<open>t\<close> to
  \<open>Suc t\<close>.
\<close>

partial_function (option) check_internet_off ::
  "host \<Rightarrow> string \<Rightarrow> nat \<Rightarrow> ((pyexc + bool) \<times> nat) option" where
  "check_internet_off h secrets_file_path t =
     (case internet_on h t of
        Inl e \<Rightarrow> Some (Inl e, t)
      | Inr on \<Rightarrow>
          if on = False \<and> path_exists h t secrets_file_path then Some (Inr True, t)
          else check_internet_off h secrets_file_path (Suc t))"

partial_function (option) check_internet_on ::
  "host \<Rightarrow> string \<Rightarrow> nat \<Rightarrow> ((pyexc + bool) \<times> nat) option" where
  "check_internet_on h secrets_file_path t =
     (case internet_on h t of
        Inl e \<Rightarrow> Some (Inl e, t)
      | Inr on \<Rightarrow>
          if on = True \<and> \<not> path_exists h t secrets_file_path then Some (Inr True, t)
          else check_internet_on h secrets_file_path (Suc t))"

declare check_internet_off.simps [code]

declare check_internet_on.simps [code]

record FileSecretManager =
  wif :: "string option"
  path_to_secret :: string
  safe_mode :: bool
  issuing_address :: "string option"

text \<open>\<open>start\<close> and \<open>stop\<close> return the manager as they leave it and the moment they end
  at; \<open>stop\<close> clears \<open>wif\<close> before it polls.\<close>

definition start ::
  "host \<Rightarrow> FileSecretManager \<Rightarrow> nat \<Rightarrow> ((pyexc + unit) \<times> FileSecretManager \<times> nat) option" where
  "start h self t =
     (case (if safe_mode self then check_internet_off h (path_to_secret self) t
            else Some (Inr True, t)) of
        None \<Rightarrow> None
      | Some (Inl e, t') \<Rightarrow> Some (Inl e, self, t')
      | Some (Inr _, t') \<Rightarrow>
          (case import_key h t' (path_to_secret self) of
             Inl e \<Rightarrow> Some (Inl e, self, t')
           | Inr key \<Rightarrow> Some (Inr (), self\<lparr>wif := Some key\<rparr>, t')))"

definition stop ::
  "host \<Rightarrow> FileSecretManager \<Rightarrow> nat \<Rightarrow> ((pyexc + unit) \<times> FileSecretManager \<times> nat) option" where
  "stop h self t =
     (let self1 = self\<lparr>wif := None\<rparr> in
      case (if safe_mode self1 then check_internet_on h (path_to_secret self1) t
            else Some (Inr True, t)) of
        None \<Rightarrow> None
      | Some (Inl e, t') \<Rightarrow> Some (Inl e, self1, t')
      | Some (Inr _, t') \<Rightarrow> Some (Inr (), self1, t'))"

text \<open>
  \<open>with FinalizableSigner(secret_manager) as s: operation(s)\<close>. \<open>__enter__\<close> calls
  \<open>start()\<close>; when it raises, the block is not entered and \<open>__exit__\<close> is not called.
  Otherwise the operation runs on the manager (it may change it, raise, or never
  return), and \<open>__exit__\<close> calls \<open>stop()\<close> whatever the operation did; \<open>__exit__\<close>
  returns \<open>None\<close>, so an exception of the operation is raised again after it, and an
  exception of \<open>stop()\<close> takes its place. The log lists the calls in order.
\<close>

datatype session_event = StartCalled | OperationRun | StopCalled

definition with_FinalizableSigner ::
  "host \<Rightarrow> FileSecretManager \<Rightarrow>
   (FileSecretManager \<Rightarrow> nat \<Rightarrow> ((pyexc + 'a) \<times> FileSecretManager \<times> nat) option) \<Rightarrow> nat \<Rightarrow>
   ((pyexc + 'a) \<times> FileSecretManager \<times> nat \<times> session_event list) option" where
  "with_FinalizableSigner h secret_manager operation t =
     (case start h secret_manager t of
        None \<Rightarrow> None
      | Some (Inl e, sm1, t1) \<Rightarrow> Some (Inl e, sm1, t1, [StartCalled])
      | Some (Inr _, sm1, t1) \<Rightarrow>
          (case operation sm1 t1 of
             None \<Rightarrow> None
           | Some (r, sm2, t2) \<Rightarrow>
               (case stop h sm2 t2 of
                  None \<Rightarrow> None
                | Some (Inl e, sm3, t3) \<Rightarrow>
                    Some (Inl e, sm3, t3, [StartCalled, OperationRun, StopCalled])
                | Some (Inr _, sm3, t3) \<Rightarrow>
                    Some (r, sm3, t3, [StartCalled, OperationRun, StopCalled]))))"

section \<open>Signature verification (signer.py)\<close>

text \<open>\<open>json.loads\<close> and python-bitcoinlib's \<open>VerifyMessage(address, BitcoinMessage(message),
  signature)\<close> are parameters; each may raise.\<close>

record verifier =
  json_loads :: "string \<Rightarrow> pyexc + jval"
  VerifyMessage :: "string \<Rightarrow> string \<Rightarrow> jval \<Rightarrow> pyexc + bool"

text \<open>\<open>d[key]\<close>: \<open>KeyError\<close> on a dict without the key, \<open>TypeError\<close> on a JSON value that
  is not a dict.\<close>

fun json_getitem :: "jval \<Rightarrow> string \<Rightarrow> pyexc + jval" where
  "json_getitem (JObj kvs) key =
     (case map_of kvs key of None \<Rightarrow> Inl (KeyError key) | Some v \<Rightarrow> Inr v)"
| "json_getitem _ key = Inl (TypeError ''not subscriptable by a string'')"

definition verify_message :: "verifier \<Rightarrow> string \<Rightarrow> string \<Rightarrow> jval \<Rightarrow> pyexc + bool" where
  "verify_message v address message signature = VerifyMessage v address message signature"

definition verify_signature ::
  "verifier \<Rightarrow> host \<Rightarrow> nat \<Rightarrow> string \<Rightarrow> string \<Rightarrow> string \<Rightarrow> pyexc + unit" where
  "verify_signature v h t uid signed_cert_file_name issuing_addr =
     (case read_file h t signed_cert_file_name of
        Inl e \<Rightarrow> Inl e
      | Inr signed_cert \<Rightarrow>
          (case json_loads v signed_cert of
             Inl e \<Rightarrow> Inl e
           | Inr signed_cert_json \<Rightarrow>
               (let to_verify = uid in
                case json_getitem signed_cert_json ''signature'' of
                  Inl e \<Rightarrow> Inl e
                | Inr signature \<Rightarrow>
                    (case verify_message v issuing_addr to_verify signature of
                       Inl e \<Rightarrow> Inl e
                     | Inr verified \<Rightarrow>
                         if \<not> verified
                         then Inl (UnverifiedSignatureError
                                (''There was a problem with the signature for certificate uid=''
                                 @ uid))
                         else Inr ()))))"

section \<open>Example inputs\<close>

text \<open>
  Concrete chains, providers and worlds on which the theorems below are evaluated. The
  registry of the examples has three broadcast providers for the bitcoin chain and the
  Etherscan connector for the ethereum chain; no HTTP endpoint answers.
\<close>

definition example_bitcoin_mainnet :: chain where
  "example_bitcoin_mainnet =
     \<lparr>chain_name = ''bitcoin_mainnet'', blockchain_type = bitcoin,
      external_display_value = ''bitcoinMainnet''\<rparr>"

definition example_ethereum_mainnet :: chain where
  "example_ethereum_mainnet =
     \<lparr>chain_name = ''ethereum_mainnet'', blockchain_type = ethereum,
      external_display_value = ''ethereumMainnet''\<rparr>"

definition example_registry :: registry where
  "example_registry c =
     (if c = example_bitcoin_mainnet
      then Some [BlockrIOBroadcaster ''https://btc.blockr.io/api/v1'',
                 BlockExplorerBroadcaster ''https://blockexplorer.com/api'',
                 PycoinProvider ''insight'']
      else if c = example_ethereum_mainnet
      then Some [EtherscanBroadcaster ''https://api.etherscan.io/api'']
      else None)"

definition example_world ::
  "(provider \<Rightarrow> nat \<Rightarrow> btc_tx \<Rightarrow> pyexc + txid) \<Rightarrow>
   (provider \<Rightarrow> nat \<Rightarrow> string \<Rightarrow> pyexc + spendable list) \<Rightarrow> world" where
  "example_world broadcast_answers spendables_answers =
     \<lparr>to_pycoin_chain = (\<lambda>c. Inr ''BTC''),
      connectors = example_registry,
      requests_get = (\<lambda>k url. Inl (RequestException ''no route to host'')),
      requests_post = (\<lambda>k url data. Inl (RequestException ''no route to host'')),
      pycoin_hasattr = (\<lambda>l a. True),
      broadcast_exchange = broadcast_answers,
      spendables_exchange = spendables_answers,
      pycoin_get_balance = (\<lambda>l k address key. Inl (AttributeError ''get_balance'')),
      pycoin_get_address_nonce =
        (\<lambda>l k address key. Inl (AttributeError ''get_address_nonce''))\<rparr>"

text \<open>
  A \<open>to_pycoin_chain\<close> that knows the bitcoin chains only, pycoin's netcodes being \<open>BTC\<close>
  and \<open>XTN\<close>: on any other chain it raises \<open>UnknownChainError\<close>.
\<close>

definition bitcoin_only_to_pycoin_chain :: "chain \<Rightarrow> pyexc + string" where
  "bitcoin_only_to_pycoin_chain c =
     (if chain_name c = ''bitcoin_regtest'' \<or> chain_name c = ''bitcoin_testnet'' then Inr ''XTN''
      else if chain_name c = ''bitcoin_mainnet'' then Inr ''BTC''
      else Inl (UnknownChainError (chain_name c)))"

definition example_builtins :: builtins where
  "example_builtins =
     \<lparr>builtin_int = (\<lambda>j. case j of JNum n \<Rightarrow> Inr n | _ \<Rightarrow> Inl (ValueError ''int'')),
      builtin_int_base0 = (\<lambda>j. case j of JNum n \<Rightarrow> Inr n | _ \<Rightarrow> Inl (ValueError ''int''))\<rparr>"

definition example_tx :: btc_tx where
  "example_tx = \<lparr>txs_in = [\<lparr>script = ''sig''\<rparr>], as_hex = ''0100''\<rparr>"

text \<open>Two providers answer with different ids, the third agrees with the first.\<close>

fun conflicting_answers :: "provider \<Rightarrow> nat \<Rightarrow> btc_tx \<Rightarrow> pyexc + txid" where
  "conflicting_answers (BlockrIOBroadcaster _) k tx = Inr (Some ''X'')"
| "conflicting_answers (BlockExplorerBroadcaster _) k tx = Inr (Some ''Y'')"
| "conflicting_answers _ k tx = Inr (Some ''X'')"

text \<open>Every provider raises at every call; the message changes with the third
  attempt (calls 6, 7 and 8 of a broadcast over three providers).\<close>

fun failing_answers :: "provider \<Rightarrow> nat \<Rightarrow> btc_tx \<Rightarrow> pyexc + txid" where
  "failing_answers (PycoinProvider l) k tx =
     Inl (LibraryError (if k < 6 then ''timed out'' else ''connection refused''))"
| "failing_answers _ k tx = Inl (BroadcastError (if k < 6 then ''busy'' else ''rejected''))"

text \<open>The first provider raises, the second returns an id, the third returns \<open>None\<close>.\<close>

fun one_answer :: "provider \<Rightarrow> nat \<Rightarrow> btc_tx \<Rightarrow> pyexc + txid" where
  "one_answer (BlockrIOBroadcaster _) k tx = Inl (BroadcastError ''busy'')"
| "one_answer (BlockExplorerBroadcaster _) k tx = Inr (Some ''X'')"
| "one_answer _ k tx = Inr None"

definition no_spendables :: "provider \<Rightarrow> nat \<Rightarrow> string \<Rightarrow> pyexc + spendable list" where
  "no_spendables p k address = Inl (ConnectorError ''status_code=503'')"

text \<open>An unspent-output answer with a coin value of \<open>2^61 - 1\<close> before a coin value
  of 1.\<close>

definition large_spendables :: "provider \<Rightarrow> nat \<Rightarrow> string \<Rightarrow> pyexc + spendable list" where
  "large_spendables p k address =
     Inr [\<lparr>coin_value = 2305843009213693951, puzzle_script = ''76a9'', tx_hash = ''aa'',
           tx_out_index = 0\<rparr>,
          \<lparr>coin_value = 1, puzzle_script = ''76a9'', tx_hash = ''bb'', tx_out_index = 1\<rparr>]"

text \<open>A signing library that signs the first input only, and a key it accepts.\<close>

definition signs_first_input :: "int list btc_lib" where
  "signs_first_input =
     \<lparr>wif_to_secret_exponent =
        (\<lambda>secret prefixes. case secret of
             None \<Rightarrow> Inl (TypeError ''wif is None'')
           | Some k \<Rightarrow> Inr 7),
      build_hash160_lookup = (\<lambda>exponents. Inr exponents),
      Tx_sign =
        (\<lambda>tx lookup. Inr (tx\<lparr>txs_in :=
             (case txs_in tx of [] \<Rightarrow> [] | i # rest \<Rightarrow> i\<lparr>script := ''sig''\<rparr> # rest)\<rparr>))\<rparr>"

definition example_BitcoinSigner :: BitcoinSigner where
  "example_BitcoinSigner = \<lparr>signer_bitcoin_chain = ''BTC'', allowable_wif_prefixes = [''80'']\<rparr>"

text \<open>An ethereum library whose signature spells out the chain id it was given.\<close>

definition spelling_eth_lib :: "string eth_lib" where
  "spelling_eth_lib =
     \<lparr>Transaction_sign =
        (\<lambda>t secret chain_id. case secret of
             None \<Rightarrow> Inl (TypeError ''key is None'')
           | Some k \<Rightarrow>
               Inr (t @ (case chain_id of
                           None \<Rightarrow> '';v=27''
                         | Some n \<Rightarrow> if n = 1 then '';v=37'' else '';v=41''))),
      rlp_encode = (\<lambda>t. Inr t),
      encode_hex = (\<lambda>raw. Inr (''0x'' @ raw))\<rparr>"

definition example_ethereum_ropsten :: chain where
  "example_ethereum_ropsten =
     \<lparr>chain_name = ''ethereum_ropsten'', blockchain_type = ethereum,
      external_display_value = ''ethereumRopsten''\<rparr>"

text \<open>
  A host in safe mode's expected course: at moment 0 it is offline with the key file
  present, from moment 1 on it is online and the file is gone.
\<close>

definition example_host :: host where
  "example_host =
     \<lparr>google_get = (\<lambda>t. if t = 0 then Inl (RequestException ''offline'') else Inr ()),
      path_exists = (\<lambda>t path. t = 0 \<and> path = ''/media/usb/pk.txt''),
      read_file =
        (\<lambda>t path. if t = 0 \<and> path = ''/media/usb/pk.txt''
                   then Inr (''L1aW4aubDFB7yfras2S1mN'' @ [CHR 0x0A])
                   else if path = ''cert.json'' then Inr ''{signature: H9x=}''
                   else Inl (IOError ''No such file or directory''))\<rparr>"

definition example_manager :: FileSecretManager where
  "example_manager =
     \<lparr>wif = None, path_to_secret = ''/media/usb/pk.txt'', safe_mode = True,
      issuing_address = Some ''1issuer''\<rparr>"

text \<open>An enclosed operation that raises.\<close>

definition failing_operation ::
  "FileSecretManager \<Rightarrow> nat \<Rightarrow> ((pyexc + string) \<times> FileSecretManager \<times> nat) option" where
  "failing_operation sm t = Some (Inl (UnableToSignTxError ''Unable to sign transaction''), sm, t)"

text \<open>A verifier that accepts the signature \<open>H9x=\<close> for the identifier \<open>abc123\<close> and
  the address \<open>1issuer\<close>, and nothing else.\<close>

definition example_verifier :: verifier where
  "example_verifier =
     \<lparr>json_loads =
        (\<lambda>doc. if doc = ''{signature: H9x=}'' then Inr (JObj [(''signature'', JStr ''H9x='')])
              else Inl (ValueError ''Expecting value'')),
      VerifyMessage =
        (\<lambda>address message signature.
           Inr (address = ''1issuer'' \<and> message = ''abc123'' \<and> signature = JStr ''H9x=''))\<rparr>"

section \<open>The provider registry: theorems\<close>

text \<open>
  Claim C5 says that the lookup with the use-local-node flag set returns exactly one
  provider for every network. The lookup first evaluates \<open>helpers.to_pycoin_chain\<close> on
  the network, for the connector's netcode, and this may raise: with a helper that
  knows the bitcoin chains only, the lookup for an ethereum chain raises
  \<open>UnknownChainError\<close> and returns no provider.
\<close>

theorem get_providers_for_chain_local_node_counterexample:
  "get_providers_for_chain bitcoin_only_to_pycoin_chain example_registry
     example_ethereum_mainnet True = Inl (UnknownChainError ''ethereum_mainnet'')"
  by (simp add: get_providers_for_chain_def bitcoin_only_to_pycoin_chain_def
      example_ethereum_mainnet_def)

text \<open>
  Claim C5, amended. With the use-local-node flag set, the registry lookup does the same
  for any two registries \<open>reg\<close> and \<open>reg'\<close>, whatever remote providers are configured for
  the network and also when none is: on a network for which \<open>helpers.to_pycoin_chain\<close>
  returns a netcode it returns a list of exactly one provider, a \<open>BitcoindConnector\<close>
  with that netcode; on a network for which \<open>helpers.to_pycoin_chain\<close> raises, it raises
  the same exception.
\<close>

theorem get_providers_for_chain_local_node:
  "(helper c = Inr nc \<longrightarrow>
      get_providers_for_chain helper reg c True = Inr [BitcoindConnector nc])
   \<and> (helper c = Inl e \<longrightarrow> get_providers_for_chain helper reg c True = Inl e)
   \<and> get_providers_for_chain helper reg' c True = get_providers_for_chain helper reg c True"
  by (simp add: get_providers_for_chain_def)

theorem get_providers_for_chain_local_node_witness:
  "get_providers_for_chain bitcoin_only_to_pycoin_chain example_registry
     example_bitcoin_mainnet True = Inr [BitcoindConnector ''BTC'']
   \<and> get_providers_for_chain bitcoin_only_to_pycoin_chain Map.empty
       example_bitcoin_mainnet True = Inr [BitcoindConnector ''BTC'']
   \<and> get_providers_for_chain bitcoin_only_to_pycoin_chain example_registry
       example_ethereum_ropsten True = Inl (UnknownChainError ''ethereum_ropsten'')"
proof -
  have btc: "bitcoin_only_to_pycoin_chain example_bitcoin_mainnet = Inr ''BTC''"
    by (simp add: bitcoin_only_to_pycoin_chain_def example_bitcoin_mainnet_def)
  have rop: "bitcoin_only_to_pycoin_chain example_ethereum_ropsten =
               Inl (UnknownChainError ''ethereum_ropsten'')"
    by (simp add: bitcoin_only_to_pycoin_chain_def example_ethereum_ropsten_def)
  show ?thesis
    using get_providers_for_chain_local_node
            [of bitcoin_only_to_pycoin_chain example_bitcoin_mainnet "''BTC''" example_registry
                _ Map.empty]
          get_providers_for_chain_local_node
            [of bitcoin_only_to_pycoin_chain example_ethereum_ropsten _ example_registry
                "UnknownChainError ''ethereum_ropsten''" example_registry]
          btc rop
    by simp
qed

section \<open>Broadcast: theorems\<close>

lemmas example_defs = example_world_def example_registry_def example_bitcoin_mainnet_def
  example_ethereum_mainnet_def example_tx_def

lemma try_provider_trace:
  "trace (try_provider w tx m s) = trace s @ [Called m]"
  by (simp add: try_provider_def Let_def split: sum.splits)

lemma try_provider_clock:
  "clock (try_provider w tx m s) = Suc (clock s)"
  by (simp add: try_provider_def Let_def split: sum.splits)

lemma fold_try_provider_trace:
  "trace (fold (try_provider w tx) ms s) = trace s @ map Called ms"
  by (induction ms arbitrary: s) (simp_all add: try_provider_trace)

lemma fold_try_provider_clock:
  "clock (fold (try_provider w tx) ms s) = clock s + length ms"
  by (induction ms arbitrary: s) (simp_all add: try_provider_clock)

lemma try_provider_raise:
  assumes "call_broadcast_tx w m (clock s) tx = Inl e"
  shows "try_provider w tx m s =
           s\<lparr>clock := Suc (clock s), trace := trace s @ [Called m], last_exception := Some e\<rparr>"
  using assms by (simp add: try_provider_def Let_def)

text \<open>One pass over the providers when each of them raises: no id is recorded, and the
  remembered exception is the one of the last provider.\<close>

lemma fold_all_raise:
  assumes "\<forall>i<length ms. isl (call_broadcast_tx w (ms ! i) (clock s + i) tx)"
  shows "fold (try_provider w tx) ms s =
           s\<lparr>clock := clock s + length ms,
             trace := trace s @ map Called ms,
             last_exception :=
               (if ms = [] then last_exception s
                else Some (projl (call_broadcast_tx w (last ms) (clock s + length ms - 1) tx)))\<rparr>"
  using assms
proof (induction ms rule: rev_induct)
  case Nil
  then show ?case by simp
next
  case (snoc m ms)
  have prev: "\<forall>i<length ms. isl (call_broadcast_tx w (ms ! i) (clock s + i) tx)"
  proof (intro allI impI)
    fix i assume "i < length ms"
    then show "isl (call_broadcast_tx w (ms ! i) (clock s + i) tx)"
      using snoc.prems [rule_format, of i] by (simp add: nth_append)
  qed
  have here: "isl (call_broadcast_tx w m (clock s + length ms) tx)"
    using snoc.prems [rule_format, of "length ms"] by simp
  then obtain e where e: "call_broadcast_tx w m (clock s + length ms) tx = Inl e"
    by (cases "call_broadcast_tx w m (clock s + length ms) tx") auto
  let ?s1 = "fold (try_provider w tx) ms s"
  have c1: "clock ?s1 = clock s + length ms" by (rule fold_try_provider_clock)
  have "try_provider w tx m ?s1 =
          ?s1\<lparr>clock := Suc (clock ?s1), trace := trace ?s1 @ [Called m], last_exception := Some e\<rparr>"
    by (rule try_provider_raise) (simp add: c1 e)
  then show ?case
    by (simp add: snoc.IH [OF prev] e)
qed

text \<open>An attempt in which every provider raises sleeps and goes on to the next one.\<close>

lemma attempt_all_raise:
  assumes ps: "get_providers_for_chain (to_pycoin_chain w) (connectors w) c b = Inr ps"
      and ms: "service_provider_methods_broadcast_tx w ps = ms"
      and raise: "\<forall>i<length ms. isl (call_broadcast_tx w (ms ! i) (clock s + i) tx)"
      and none: "\<not> truthy (final_tx_id s)"
  shows "broadcast_attempts w tx c b (a # rest) s =
           broadcast_attempts w tx c b rest
             (s\<lparr>clock := clock s + length ms,
                trace := trace s @ map Called ms @ [Slept 30],
                last_exception :=
                  (if ms = [] then last_exception s
                   else Some (projl (call_broadcast_tx w (last ms) (clock s + length ms - 1) tx)))\<rparr>)"
proof -
  let ?s' = "fold (try_provider w tx) ms s"
  have f: "final_tx_id ?s' = final_tx_id s"
    by (simp add: fold_all_raise [OF raise])
  have eq: "?s'\<lparr>trace := trace ?s' @ [Slept BROADCAST_RETRY_INTERVAL]\<rparr> =
          s\<lparr>clock := clock s + length ms,
            trace := trace s @ map Called ms @ [Slept 30],
            last_exception :=
              (if ms = [] then last_exception s
               else Some (projl (call_broadcast_tx w (last ms) (clock s + length ms - 1) tx)))\<rparr>"
    by (simp add: fold_all_raise [OF raise] BROADCAST_RETRY_INTERVAL_def)
  show ?thesis
    using ps none f by (simp add: ms Let_def eq)
qed

lemma broadcast_all_raise:
  assumes ps: "get_providers_for_chain (to_pycoin_chain w) (connectors w) c b = Inr ps"
      and ms: "service_provider_methods_broadcast_tx w ps = ms"
      and raise: "\<forall>a<3. \<forall>i<length ms. isl (call_broadcast_tx w (ms ! i) (a * length ms + i) tx)"
  shows "broadcast_tx_with_chain w tx c b =
           (Inl (BroadcastErrorOf
                  (if ms = [] then None
                   else Some (projl (call_broadcast_tx w (last ms) (3 * length ms - 1) tx)))),
            \<lparr>final_tx_id = None,
             last_exception =
               (if ms = [] then None
                else Some (projl (call_broadcast_tx w (last ms) (3 * length ms - 1) tx))),
             clock = 3 * length ms,
             trace = map Called ms @ [Slept 30] @ map Called ms @ [Slept 30]
                       @ map Called ms @ [Slept 30]\<rparr>)"
proof -
  let ?n = "length ms"
  let ?s0 = "\<lparr>final_tx_id = None, last_exception = None, clock = 0, trace = []\<rparr>"
  have r0: "\<forall>i<?n. isl (call_broadcast_tx w (ms ! i) (clock ?s0 + i) tx)"
    using raise [rule_format, of 0] by simp
  let ?s1 = "?s0\<lparr>clock := clock ?s0 + ?n, trace := trace ?s0 @ map Called ms @ [Slept 30],
      last_exception := (if ms = [] then last_exception ?s0
         else Some (projl (call_broadcast_tx w (last ms) (clock ?s0 + ?n - 1) tx)))\<rparr>"
  have r1: "\<forall>i<?n. isl (call_broadcast_tx w (ms ! i) (clock ?s1 + i) tx)"
    using raise [rule_format, of 1] by simp
  let ?s2 = "?s1\<lparr>clock := clock ?s1 + ?n, trace := trace ?s1 @ map Called ms @ [Slept 30],
      last_exception := (if ms = [] then last_exception ?s1
         else Some (projl (call_broadcast_tx w (last ms) (clock ?s1 + ?n - 1) tx)))\<rparr>"
  have r2: "\<forall>i<?n. isl (call_broadcast_tx w (ms ! i) (clock ?s2 + i) tx)"
    using raise [rule_format, of 2] by (simp add: mult_2)
  have a0: "broadcast_attempts w tx c b [0, 1, 2] ?s0 = broadcast_attempts w tx c b [1, 2] ?s1"
    by (rule attempt_all_raise [OF ps ms r0]) simp
  have a1: "broadcast_attempts w tx c b [1, 2] ?s1 = broadcast_attempts w tx c b [2] ?s2"
    by (rule attempt_all_raise [OF ps ms r1]) simp
  have a2: "broadcast_attempts w tx c b [2] ?s2 = broadcast_attempts w tx c b []
      (?s2\<lparr>clock := clock ?s2 + ?n, trace := trace ?s2 @ map Called ms @ [Slept 30],
      last_exception := (if ms = [] then last_exception ?s2
         else Some (projl (call_broadcast_tx w (last ms) (clock ?s2 + ?n - 1) tx)))\<rparr>)"
    by (rule attempt_all_raise [OF ps ms r2]) simp
  have upt: "[0..<MAX_BROADCAST_ATTEMPTS] = [0, 1, 2]"
    by (simp add: MAX_BROADCAST_ATTEMPTS_def upt_rec numeral_3_eq_3)
  have three: "length ms + length ms + length ms = 3 * length ms"
    by simp
  show ?thesis
    unfolding broadcast_tx_with_chain_def upt a0 a1 a2
    by (simp add: three)
qed

text \<open>A broadcast that returns an id returns at the end of an attempt's pass over the
  providers: the last thing it did is a provider call.\<close>

lemma attempts_success_ends_with_call:
  assumes "\<not> truthy (final_tx_id s)"
      and "broadcast_attempts w tx c b attempt_numbers s = (Inr tx_id, s')"
  shows "trace s' \<noteq> [] \<and> (\<exists>p. last (trace s') = Called p)"
  using assms
proof (induction attempt_numbers arbitrary: s)
  case Nil
  then show ?case by simp
next
  case (Cons a rest)
  show ?case
  proof (cases "get_providers_for_chain (to_pycoin_chain w) (connectors w) c b")
    case (Inl e)
    with Cons.prems show ?thesis by simp
  next
    case (Inr ps)
    let ?ms = "service_provider_methods_broadcast_tx w ps"
    let ?s1 = "fold (try_provider w tx) ?ms s"
    show ?thesis
    proof (cases "truthy (final_tx_id ?s1)")
      case True
      with Cons.prems Inr have s': "s' = ?s1" by (simp add: Let_def)
      have "?ms \<noteq> []"
      proof
        assume "?ms = []"
        then have "?s1 = s" by simp
        with True Cons.prems(1) show False by simp
      qed
      then show ?thesis
        by (simp add: s' fold_try_provider_trace last_map)
    next
      case False
      with Cons.prems Inr have
        "broadcast_attempts w tx c b rest
           (?s1\<lparr>trace := trace ?s1 @ [Slept BROADCAST_RETRY_INTERVAL]\<rparr>) = (Inr tx_id, s')"
        by (simp add: Let_def)
      moreover have
        "\<not> truthy (final_tx_id (?s1\<lparr>trace := trace ?s1 @ [Slept BROADCAST_RETRY_INTERVAL]\<rparr>))"
        using False by simp
      ultimately show ?thesis by (rule Cons.IH [rotated])
    qed
  qed
qed

text \<open>
  Claim C1 says that two distinct ids within one attempt make the broadcast raise at
  once, with no further provider call. The code does not do so: the exception is raised
  inside the \<open>try\<close> whose \<open>except Exception\<close> catches it. On three providers answering
  \<open>X\<close>, \<open>Y\<close>, \<open>X\<close> the broadcast calls the third provider after the conflict and
  returns \<open>X\<close>; the conflict is left in \<open>last_exception\<close> only.
\<close>

theorem conflicting_ids_returned:
  "broadcast_tx_with_chain (example_world conflicting_answers no_spendables) example_tx
     example_bitcoin_mainnet False =
   (Inr (Some ''X''),
    \<lparr>final_tx_id = Some ''X'',
     last_exception = Some (PyException ''Got conflicting tx_ids.''),
     clock = 3,
     trace = [Called (BlockrIOBroadcaster ''https://btc.blockr.io/api/v1''),
              Called (BlockExplorerBroadcaster ''https://blockexplorer.com/api''),
              Called (PycoinProvider ''insight'')]\<rparr>)"
  by (simp add: broadcast_tx_with_chain_def example_defs get_providers_for_chain_def
      service_provider_methods_broadcast_tx_def try_provider_def MAX_BROADCAST_ATTEMPTS_def
      upt_rec)

text \<open>
  Claim C2. When every broadcast provider raises at each of its three calls, the
  broadcast makes exactly three passes over the providers, sleeps 30 after each pass
  (so between consecutive attempts, and once more after the third), and raises
  \<open>BroadcastError\<close> of the exception the last provider raised in the third pass (of
  \<open>None\<close> when no provider has \<open>broadcast_tx\<close>). And a broadcast that returns an id did
  not sleep after the attempt that produced it: its last event is a provider call.
\<close>

theorem broadcast_all_providers_raise:
  "(get_providers_for_chain (to_pycoin_chain w) (connectors w) c b = Inr ps
    \<and> service_provider_methods_broadcast_tx w ps = ms
    \<and> (\<forall>a<3. \<forall>i<length ms. isl (call_broadcast_tx w (ms ! i) (a * length ms + i) tx))
    \<longrightarrow> broadcast_tx_with_chain w tx c b =
          (Inl (BroadcastErrorOf
                 (if ms = [] then None
                  else Some (projl (call_broadcast_tx w (last ms) (3 * length ms - 1) tx)))),
           \<lparr>final_tx_id = None,
            last_exception =
              (if ms = [] then None
               else Some (projl (call_broadcast_tx w (last ms) (3 * length ms - 1) tx))),
            clock = 3 * length ms,
            trace = map Called ms @ [Slept 30] @ map Called ms @ [Slept 30]
                      @ map Called ms @ [Slept 30]\<rparr>))
   \<and> (broadcast_tx_with_chain w tx c b = (Inr tx_id, s')
      \<longrightarrow> trace s' \<noteq> [] \<and> (\<exists>p. last (trace s') = Called p))"
proof (intro conjI impI)
  assume "get_providers_for_chain (to_pycoin_chain w) (connectors w) c b = Inr ps
    \<and> service_provider_methods_broadcast_tx w ps = ms
    \<and> (\<forall>a<3. \<forall>i<length ms. isl (call_broadcast_tx w (ms ! i) (a * length ms + i) tx))"
  then show "broadcast_tx_with_chain w tx c b =
          (Inl (BroadcastErrorOf
                 (if ms = [] then None
                  else Some (projl (call_broadcast_tx w (last ms) (3 * length ms - 1) tx)))),
           \<lparr>final_tx_id = None,
            last_exception =
              (if ms = [] then None
               else Some (projl (call_broadcast_tx w (last ms) (3 * length ms - 1) tx))),
            clock = 3 * length ms,
            trace = map Called ms @ [Slept 30] @ map Called ms @ [Slept 30]
                      @ map Called ms @ [Slept 30]\<rparr>)"
    using broadcast_all_raise by blast
next
  assume run: "broadcast_tx_with_chain w tx c b = (Inr tx_id, s')"
  show "trace s' \<noteq> []"
    using attempts_success_ends_with_call [OF _ run [unfolded broadcast_tx_with_chain_def]]
    by simp
  show "\<exists>p. last (trace s') = Called p"
    using attempts_success_ends_with_call [OF _ run [unfolded broadcast_tx_with_chain_def]]
    by simp
qed

lemma failing_answers_raise:
  "isl (call_broadcast_tx (example_world failing_answers sx) p k tx)"
  by (cases p) (simp_all add: example_world_def)

theorem broadcast_all_providers_raise_witness:
  "broadcast_tx_with_chain (example_world failing_answers no_spendables) example_tx
     example_bitcoin_mainnet False =
   (Inl (BroadcastErrorOf (Some (LibraryError ''connection refused''))),
    \<lparr>final_tx_id = None,
     last_exception = Some (LibraryError ''connection refused''),
     clock = 9,
     trace = [Called (BlockrIOBroadcaster ''https://btc.blockr.io/api/v1''),
              Called (BlockExplorerBroadcaster ''https://blockexplorer.com/api''),
              Called (PycoinProvider ''insight''), Slept 30,
              Called (BlockrIOBroadcaster ''https://btc.blockr.io/api/v1''),
              Called (BlockExplorerBroadcaster ''https://blockexplorer.com/api''),
              Called (PycoinProvider ''insight''), Slept 30,
              Called (BlockrIOBroadcaster ''https://btc.blockr.io/api/v1''),
              Called (BlockExplorerBroadcaster ''https://blockexplorer.com/api''),
              Called (PycoinProvider ''insight''), Slept 30]\<rparr>)
   \<and> fst (broadcast_tx_with_chain (example_world one_answer no_spendables) example_tx
            example_bitcoin_mainnet False) = Inr (Some ''X'')
   \<and> last (trace (snd (broadcast_tx_with_chain (example_world one_answer no_spendables)
                         example_tx example_bitcoin_mainnet False))) =
       Called (PycoinProvider ''insight'')"
proof -
  let ?w = "example_world failing_answers no_spendables"
  let ?ms = "[BlockrIOBroadcaster ''https://btc.blockr.io/api/v1'',
              BlockExplorerBroadcaster ''https://blockexplorer.com/api'',
              PycoinProvider ''insight'']"
  have ps: "get_providers_for_chain (to_pycoin_chain ?w) (connectors ?w)
              example_bitcoin_mainnet False = Inr ?ms"
    by (simp add: get_providers_for_chain_def example_defs)
  have ms: "service_provider_methods_broadcast_tx ?w ?ms = ?ms"
    by (simp add: service_provider_methods_broadcast_tx_def example_defs)
  have raise: "\<forall>a<3. \<forall>i<length ?ms.
                 isl (call_broadcast_tx ?w (?ms ! i) (a * length ?ms + i) example_tx)"
    by (simp add: failing_answers_raise)
  have one: "broadcast_tx_with_chain (example_world one_answer no_spendables) example_tx
               example_bitcoin_mainnet False =
             (Inr (Some ''X''),
              \<lparr>final_tx_id = Some ''X'', last_exception = Some (BroadcastError ''busy''),
               clock = 3, trace = map Called ?ms\<rparr>)"
    by (simp add: broadcast_tx_with_chain_def example_defs get_providers_for_chain_def
        service_provider_methods_broadcast_tx_def try_provider_def MAX_BROADCAST_ATTEMPTS_def
        upt_rec)
  have first: "broadcast_tx_with_chain ?w example_tx example_bitcoin_mainnet False =
          (Inl (BroadcastErrorOf
                 (if ?ms = [] then None
                  else Some (projl (call_broadcast_tx ?w (last ?ms) (3 * length ?ms - 1)
                                      example_tx)))),
           \<lparr>final_tx_id = None,
            last_exception =
              (if ?ms = [] then None
               else Some (projl (call_broadcast_tx ?w (last ?ms) (3 * length ?ms - 1)
                                   example_tx))),
            clock = 3 * length ?ms,
            trace = map Called ?ms @ [Slept 30] @ map Called ?ms @ [Slept 30]
                      @ map Called ?ms @ [Slept 30]\<rparr>)"
    using broadcast_all_providers_raise
            [of ?w example_bitcoin_mainnet False ?ms ?ms example_tx]
          ps ms raise
    by blast
  have second: "\<exists>p. last (trace (snd (broadcast_tx_with_chain
                    (example_world one_answer no_spendables) example_tx
                    example_bitcoin_mainnet False))) = Called p"
    using broadcast_all_providers_raise
            [of "example_world one_answer no_spendables" example_bitcoin_mainnet False
                _ _ example_tx "Some ''X''"] one
    by simp
  show ?thesis
    using first one second by (simp add: example_world_def)
qed

section \<open>Read queries: theorems\<close>

lemma eth_get_balance_loop_all_fail:
  assumes "\<forall>m\<in>set ps. \<forall>k. \<not> isinstance_BitcoindConnector m \<longrightarrow>
             isl (call_get_balance b w m k address key)"
  shows "eth_get_balance_loop b w address key ps k = 0"
  using assms
proof (induction ps arbitrary: k)
  case Nil
  then show ?case by simp
next
  case (Cons m ms)
  have tail: "eth_get_balance_loop b w address key ms k' = 0" for k'
    using Cons by simp
  show ?case
  proof (cases "isinstance_BitcoindConnector m")
    case True
    then show ?thesis by (simp add: tail)
  next
    case False
    with Cons.prems have "isl (call_get_balance b w m k address key)" by simp
    then obtain e where "call_get_balance b w m k address key = Inl e"
      by (cases "call_get_balance b w m k address key") auto
    with False show ?thesis by (simp add: tail)
  qed
qed

lemma eth_get_address_nonce_loop_all_fail:
  assumes "\<forall>m\<in>set ps. \<forall>k. isl (call_get_address_nonce b w m k address key)"
  shows "eth_get_address_nonce_loop b w address key ps k = 0"
  using assms
proof (induction ps arbitrary: k)
  case Nil
  then show ?case by simp
next
  case (Cons m ms)
  have tail: "eth_get_address_nonce_loop b w address key ms k' = 0" for k'
    using Cons by simp
  from Cons.prems have "isl (call_get_address_nonce b w m k address key)" by simp
  then obtain e where "call_get_address_nonce b w m k address key = Inl e"
    by (cases "call_get_address_nonce b w m k address key") auto
  then show ?case by (simp add: tail)
qed

lemma spendables_loop_all_fail:
  assumes "\<forall>m\<in>set ms. \<forall>k. isl (spendables_exchange w m k address)"
  shows "spendables_loop w address ms k = []"
  using assms
proof (induction ms arbitrary: k)
  case Nil
  then show ?case by simp
next
  case (Cons m ms)
  have tail: "spendables_loop w address ms k' = []" for k'
    using Cons by simp
  from Cons.prems have "isl (spendables_exchange w m k address)" by simp
  then obtain e where "spendables_exchange w m k address = Inl e"
    by (cases "spendables_exchange w m k address") auto
  then show ?case by (simp add: tail)
qed

text \<open>
  Claim C3. When the registry lookup gives a provider list and every provider of it
  fails (raises whenever it is called), each read query returns its sentinel and does
  not raise: the ethereum balance and nonce lookups return 0, the bitcoin
  \<open>spendables_for_address\<close> returns the empty list, \<open>get_unspent_outputs\<close> returns
  \<open>None\<close>, and the bitcoin balance lookup returns 0.
\<close>

theorem read_queries_all_providers_fail:
  "(get_providers_for_chain (to_pycoin_chain w) (connectors w)
       (ethereum_chain ec) (local_node ec) = Inr eps
    \<and> (\<forall>m\<in>set eps. \<forall>k. \<not> isinstance_BitcoindConnector m \<longrightarrow>
           isl (call_get_balance b w m k address (api_key ec)))
    \<longrightarrow> eth_get_balance b w ec address = Inr 0)
   \<and> (get_providers_for_chain (to_pycoin_chain w) (connectors w)
         (ethereum_chain ec) (local_node ec) = Inr eps
      \<and> (\<forall>m\<in>set eps. \<forall>k. isl (call_get_address_nonce b w m k address (api_key ec)))
      \<longrightarrow> eth_get_address_nonce b w ec address = Inr 0)
   \<and> (get_providers_for_chain (to_pycoin_chain w) (connectors w)
         (bitcoin_chain bc) (bitcoind bc) = Inr bps
      \<and> (\<forall>m\<in>set (service_provider_methods_spendables w bps). \<forall>k.
            isl (spendables_exchange w m k address))
      \<longrightarrow> spendables_for_address w bc address = Inr []
          \<and> get_unspent_outputs w bc address = Inr None
          \<and> btc_get_balance w bc address = Inr 0)"
  by (simp add: eth_get_balance_def eth_get_address_nonce_def spendables_for_address_def
      get_unspent_outputs_def btc_get_balance_def eth_get_balance_loop_all_fail
      eth_get_address_nonce_loop_all_fail spendables_loop_all_fail)

theorem read_queries_all_providers_fail_witness:
  "eth_get_balance example_builtins (example_world one_answer no_spendables)
     \<lparr>ethereum_chain = example_ethereum_mainnet, api_key = Some ''TOKEN'', local_node = False\<rparr>
     ''0xabc'' = Inr 0
   \<and> eth_get_address_nonce example_builtins (example_world one_answer no_spendables)
       \<lparr>ethereum_chain = example_ethereum_mainnet, api_key = Some ''TOKEN'',
        local_node = False\<rparr> ''0xabc'' = Inr 0
   \<and> spendables_for_address (example_world one_answer no_spendables)
       \<lparr>bitcoin_chain = example_bitcoin_mainnet, bitcoind = False\<rparr> ''1abc'' = Inr []
   \<and> get_unspent_outputs (example_world one_answer no_spendables)
       \<lparr>bitcoin_chain = example_bitcoin_mainnet, bitcoind = False\<rparr> ''1abc'' = Inr None
   \<and> btc_get_balance (example_world one_answer no_spendables)
       \<lparr>bitcoin_chain = example_bitcoin_mainnet, bitcoind = False\<rparr> ''1abc'' = Inr 0"
proof -
  let ?w = "example_world one_answer no_spendables"
  let ?ec = "\<lparr>ethereum_chain = example_ethereum_mainnet, api_key = Some ''TOKEN'',
              local_node = False\<rparr>"
  let ?bc = "\<lparr>bitcoin_chain = example_bitcoin_mainnet, bitcoind = False\<rparr>"
  let ?eps = "[EtherscanBroadcaster ''https://api.etherscan.io/api'']"
  let ?bps = "[BlockrIOBroadcaster ''https://btc.blockr.io/api/v1'',
               BlockExplorerBroadcaster ''https://blockexplorer.com/api'',
               PycoinProvider ''insight'']"
  have eps: "get_providers_for_chain (to_pycoin_chain ?w) (connectors ?w)
               (ethereum_chain ?ec) (local_node ?ec) = Inr ?eps"
    by (simp add: get_providers_for_chain_def example_defs)
  have bps: "get_providers_for_chain (to_pycoin_chain ?w) (connectors ?w)
               (bitcoin_chain ?bc) (bitcoind ?bc) = Inr ?bps"
    by (simp add: get_providers_for_chain_def example_defs)
  have balance_fails:
    "\<forall>m\<in>set ?eps. \<forall>k. \<not> isinstance_BitcoindConnector m \<longrightarrow>
       isl (call_get_balance example_builtins ?w m k ''0xabc'' (api_key ?ec))"
    by (simp add: Etherscan_get_balance_def example_world_def)
  have nonce_fails:
    "\<forall>m\<in>set ?eps. \<forall>k.
       isl (call_get_address_nonce example_builtins ?w m k ''0xabc'' (api_key ?ec))"
    by (simp add: Etherscan_get_address_nonce_def example_world_def)
  have spendables_fail:
    "\<forall>m\<in>set (service_provider_methods_spendables ?w ?bps). \<forall>k.
       isl (spendables_exchange ?w m k ''1abc'')"
    by (simp add: example_world_def no_spendables_def)
  show ?thesis
    using read_queries_all_providers_fail
            [of ?w ?ec ?eps example_builtins "''0xabc''" ?bc ?bps]
          eps bps balance_fails nonce_fails
    using read_queries_all_providers_fail
            [of ?w ?ec ?eps example_builtins "''1abc''" ?bc ?bps]
          spendables_fail
    by blast
qed

lemma py_hash_small: "0 \<le> n \<Longrightarrow> n < 2 ^ 61 - 1 \<Longrightarrow> py_hash n = n"
  by (simp add: py_hash_def Let_def)

text \<open>For coin values from 0 up to \<open>2^61 - 2\<close> the hash is the value, and the list sorted
  by the hash is sorted by the value.\<close>

lemma sorted_by_hash_small:
  assumes "\<forall>x\<in>set xs. 0 \<le> coin_value x \<and> coin_value x < 2 ^ 61 - 1"
  shows "sorted (map coin_value (sort_key (\<lambda>x. py_hash (coin_value x)) xs))"
proof -
  let ?ys = "sort_key (\<lambda>x. py_hash (coin_value x)) xs"
  have same: "py_hash (coin_value x) = coin_value x" if "x \<in> set ?ys" for x
    using that assms by (simp add: py_hash_small)
  have eq: "map (\<lambda>x. py_hash (coin_value x)) ?ys = map coin_value ?ys"
    by (rule map_cong [OF refl]) (rule same)
  show ?thesis
    unfolding eq [symmetric] by (rule sorted_sort_key)
qed

text \<open>
  Claim C4 says that the unspent outputs are returned sorted by ascending coin value.
  The code sorts by \<open>hash(coin_value)\<close>, and the hash of \<open>2^61 - 1\<close> is 0: on a provider
  answer with the coin values \<open>2^61 - 1\<close> and 1, in this order, the lookup returns them
  in this order, the larger value first.
\<close>

theorem unspent_outputs_not_sorted:
  "get_unspent_outputs (example_world one_answer large_spendables)
     \<lparr>bitcoin_chain = example_bitcoin_mainnet, bitcoind = False\<rparr> ''1abc'' =
   Inr (Some [\<lparr>coin_value = 2305843009213693951, puzzle_script = ''76a9'', tx_hash = ''aa'',
                tx_out_index = 0\<rparr>,
              \<lparr>coin_value = 1, puzzle_script = ''76a9'', tx_hash = ''bb'', tx_out_index = 1\<rparr>])
   \<and> \<not> sorted [2305843009213693951, 1 :: int]"
  by (simp add: get_unspent_outputs_def spendables_for_address_def example_defs
      get_providers_for_chain_def service_provider_methods_spendables_def large_spendables_def
      py_hash_def)

section \<open>The Etherscan connector: theorems\<close>

text \<open>
  Claim C10. For every two API tokens (\<open>None\<close> and the empty string included), each of
  the three Etherscan operations issues the same HTTP requests and gives the same
  result: the token is in neither the URL nor the body. The one request of each
  operation is spelled out, for every token.
\<close>

theorem etherscan_token_independent:
  "Etherscan_broadcast_tx w k base_url tx token1 = Etherscan_broadcast_tx w k base_url tx token2
   \<and> Etherscan_get_balance b w k base_url address token1 =
       Etherscan_get_balance b w k base_url address token2
   \<and> Etherscan_get_address_nonce b w k base_url address token1 =
       Etherscan_get_address_nonce b w k base_url address token2
   \<and> fst (Etherscan_broadcast_tx w k base_url tx token1) =
       [HttpPost (base_url @ ''?module=proxy&action=eth_sendRawTransaction'') [(''hex'', tx)]]
   \<and> fst (Etherscan_get_balance b w k base_url address token1) =
       [HttpGet (base_url @ ''?module=account&action=balance&address='' @ address
                 @ ''&tag=latest'')]
   \<and> fst (Etherscan_get_address_nonce b w k base_url address token1) =
       [HttpGet (base_url @ ''?module=proxy&action=eth_getTransactionCount&address=''
                 @ address @ ''&tag=latest'')]"
  by (simp add: Etherscan_broadcast_tx_def Etherscan_get_balance_def
      Etherscan_get_address_nonce_def Let_def split: sum.splits)

section \<open>Signers: theorems\<close>

lemma check_inputs_signed_iff:
  "check_inputs_signed ins =
     (if \<exists>i\<in>set ins. script i = [] then Some (UnableToSignTxError ''Unable to sign transaction'')
      else None)"
  by (induction ins) auto

text \<open>
  Claim C6. Once the library's signing routine has run and returned the transaction
  \<open>signed_transaction\<close>: if one of its inputs has an empty script, \<open>sign_transaction\<close>
  raises \<open>UnableToSignTxError\<close> (and so returns no transaction); if every input has a
  non-empty script, it returns \<open>signed_transaction\<close>.
\<close>

theorem sign_transaction_checks_inputs:
  assumes "wif_to_secret_exponent lib secret (allowable_wif_prefixes self) = Inr secret_exponent"
      and "build_hash160_lookup lib [secret_exponent] = Inr lookup"
      and "Tx_sign lib transaction_to_sign lookup = Inr signed_transaction"
  shows "((\<exists>i\<in>set (txs_in signed_transaction). script i = []) \<longrightarrow>
            BitcoinSigner_sign_transaction lib self secret transaction_to_sign =
              Inl (UnableToSignTxError ''Unable to sign transaction''))
       \<and> ((\<forall>i\<in>set (txs_in signed_transaction). script i \<noteq> []) \<longrightarrow>
            BitcoinSigner_sign_transaction lib self secret transaction_to_sign =
              Inr signed_transaction)"
  using assms by (simp add: BitcoinSigner_sign_transaction_def check_inputs_signed_iff)

theorem sign_transaction_checks_inputs_witness:
  "BitcoinSigner_sign_transaction signs_first_input example_BitcoinSigner (Some ''L1aW4'')
     \<lparr>txs_in = [\<lparr>script = []\<rparr>, \<lparr>script = []\<rparr>], as_hex = ''0100''\<rparr> =
     Inl (UnableToSignTxError ''Unable to sign transaction'')
   \<and> BitcoinSigner_sign_transaction signs_first_input example_BitcoinSigner (Some ''L1aW4'')
       \<lparr>txs_in = [\<lparr>script = []\<rparr>], as_hex = ''0100''\<rparr> =
       Inr \<lparr>txs_in = [\<lparr>script = ''sig''\<rparr>], as_hex = ''0100''\<rparr>"
  using sign_transaction_checks_inputs
          [of signs_first_input "Some ''L1aW4''" example_BitcoinSigner 7 "[7]"
              "\<lparr>txs_in = [\<lparr>script = []\<rparr>, \<lparr>script = []\<rparr>], as_hex = ''0100''\<rparr>"
              "\<lparr>txs_in = [\<lparr>script = ''sig''\<rparr>, \<lparr>script = []\<rparr>], as_hex = ''0100''\<rparr>"]
        sign_transaction_checks_inputs
          [of signs_first_input "Some ''L1aW4''" example_BitcoinSigner 7 "[7]"
              "\<lparr>txs_in = [\<lparr>script = []\<rparr>], as_hex = ''0100''\<rparr>"
              "\<lparr>txs_in = [\<lparr>script = ''sig''\<rparr>], as_hex = ''0100''\<rparr>"]
  by (simp add: signs_first_input_def)

text \<open>
  Claim C7. The ethereum signer's chain id is 1 for the chain whose display value is
  \<open>ethereumMainnet\<close>, 3 for \<open>ethereumRopsten\<close>, and unset for any other chain; and
  \<open>sign_transaction\<close> hands this id to the signing routine: what it returns is the
  encoding of the transaction which that routine signed with this id.
\<close>

theorem ethereum_signer_chain_id:
  assumes "Transaction_sign lib t secret
             (if external_display_value c = ''ethereumMainnet'' then Some 1
              else if external_display_value c = ''ethereumRopsten'' then Some 3
              else None) = Inr signed"
      and "rlp_encode lib signed = Inr raw_tx"
      and "encode_hex lib raw_tx = Inr raw_tx_hex"
  shows "netcode (EthereumSigner_init c) =
           (if external_display_value c = ''ethereumMainnet'' then Some 1
            else if external_display_value c = ''ethereumRopsten'' then Some 3
            else None)
       \<and> EthereumSigner_sign_transaction lib (EthereumSigner_init c) secret (Transaction t) =
           Inr (RawTxHex raw_tx_hex)"
  using assms by (simp add: EthereumSigner_init_def EthereumSigner_sign_transaction_def)

theorem ethereum_signer_chain_id_witness:
  "netcode (EthereumSigner_init example_ethereum_mainnet) = Some 1
   \<and> EthereumSigner_sign_transaction spelling_eth_lib
       (EthereumSigner_init example_ethereum_mainnet) (Some ''4c0883'') (Transaction ''tx'') =
       Inr (RawTxHex ''0xtx;v=37'')
   \<and> netcode (EthereumSigner_init example_ethereum_ropsten) = Some 3
   \<and> EthereumSigner_sign_transaction spelling_eth_lib
       (EthereumSigner_init example_ethereum_ropsten) (Some ''4c0883'') (Transaction ''tx'') =
       Inr (RawTxHex ''0xtx;v=41'')
   \<and> netcode (EthereumSigner_init example_bitcoin_mainnet) = None
   \<and> EthereumSigner_sign_transaction spelling_eth_lib
       (EthereumSigner_init example_bitcoin_mainnet) (Some ''4c0883'') (Transaction ''tx'') =
       Inr (RawTxHex ''0xtx;v=27'')"
  using ethereum_signer_chain_id
          [of spelling_eth_lib "''tx''" "Some ''4c0883''" example_ethereum_mainnet
              "''tx;v=37''" "''tx;v=37''" "''0xtx;v=37''"]
        ethereum_signer_chain_id
          [of spelling_eth_lib "''tx''" "Some ''4c0883''" example_ethereum_ropsten
              "''tx;v=41''" "''tx;v=41''" "''0xtx;v=41''"]
        ethereum_signer_chain_id
          [of spelling_eth_lib "''tx''" "Some ''4c0883''" example_bitcoin_mainnet
              "''tx;v=27''" "''tx;v=27''" "''0xtx;v=27''"]
  by (simp add: spelling_eth_lib_def example_ethereum_mainnet_def example_ethereum_ropsten_def
      example_bitcoin_mainnet_def)

section \<open>The scoped session: theorems\<close>

lemma start_cases:
  assumes "start h sm t = Some (r, sm1, t1)"
  shows "(isl r \<and> sm1 = sm) \<or> (r = Inr () \<and> (\<exists>key. sm1 = sm\<lparr>wif := Some key\<rparr>))"
  using assms
  by (auto simp: start_def split: option.splits sum.splits if_splits prod.splits)

lemma stop_clears:
  assumes "stop h sm t = Some (r, sm1, t1)"
  shows "sm1 = sm\<lparr>wif := None\<rparr>"
  using assms
  by (auto simp: stop_def Let_def split: option.splits sum.splits if_splits prod.splits)

text \<open>The polling loop of \<open>start\<close> ends at the first moment at which the host is offline
  with the key file present, when no poll before it raises.\<close>

lemma check_internet_off_returns:
  assumes "\<forall>j<n. internet_on h (t + j) = Inr True
                 \<or> (internet_on h (t + j) = Inr False \<and> \<not> path_exists h (t + j) p)"
      and "internet_on h (t + n) = Inr False" and "path_exists h (t + n) p"
  shows "check_internet_off h p t = Some (Inr True, t + n)"
  using assms
proof (induction n arbitrary: t)
  case 0
  then show ?case by (subst check_internet_off.simps) simp
next
  case (Suc n)
  have step: "check_internet_off h p t = check_internet_off h p (Suc t)"
    using Suc.prems(1) [rule_format, of 0] by (subst check_internet_off.simps) auto
  have "check_internet_off h p (Suc t) = Some (Inr True, Suc t + n)"
  proof (rule Suc.IH)
    show "\<forall>j<n. internet_on h (Suc t + j) = Inr True
                 \<or> (internet_on h (Suc t + j) = Inr False \<and> \<not> path_exists h (Suc t + j) p)"
      using Suc.prems(1) [rule_format, of "Suc _"] by simp
    show "internet_on h (Suc t + n) = Inr False" using Suc.prems(2) by simp
    show "path_exists h (Suc t + n) p" using Suc.prems(3) by simp
  qed
  with step show ?case by simp
qed

lemma session_paths:
  assumes "with_FinalizableSigner h sm operation t = Some (r, sm', t', log)"
  shows "(log = [StartCalled] \<and> isl r \<and> sm' = sm
          \<and> (\<exists>e t1. start h sm t = Some (Inl e, sm, t1)))
       \<or> (log = [StartCalled, OperationRun, StopCalled] \<and> wif sm' = None
          \<and> (\<exists>key t1 r1 sm2 t2 r2.
                start h sm t = Some (Inr (), sm\<lparr>wif := Some key\<rparr>, t1)
              \<and> operation (sm\<lparr>wif := Some key\<rparr>) t1 = Some (r1, sm2, t2)
              \<and> stop h sm2 t2 = Some (r2, sm', t')))"
proof (cases "start h sm t")
  case None
  with assms show ?thesis by (simp add: with_FinalizableSigner_def)
next
  case (Some a)
  obtain r0 sm1 t1 where a: "a = (r0, sm1, t1)" by (cases a) auto
  show ?thesis
  proof (cases r0)
    case (Inl e)
    with Some a start_cases [of h sm t r0 sm1 t1] have "sm1 = sm" by auto
    with assms Some a Inl show ?thesis by (auto simp: with_FinalizableSigner_def)
  next
    case (Inr u)
    with Some a start_cases [of h sm t r0 sm1 t1]
    obtain key where key: "sm1 = sm\<lparr>wif := Some key\<rparr>" by auto
    show ?thesis
    proof (cases "operation sm1 t1")
      case None
      with assms Some a Inr show ?thesis by (simp add: with_FinalizableSigner_def)
    next
      case op: (Some b)
      obtain r1 sm2 t2 where b: "b = (r1, sm2, t2)" by (cases b) auto
      show ?thesis
      proof (cases "stop h sm2 t2")
        case None
        with assms Some a Inr op b show ?thesis by (simp add: with_FinalizableSigner_def)
      next
        case st: (Some d)
        obtain r2 sm3 t3 where d: "d = (r2, sm3, t3)" by (cases d) auto
        have cleared: "sm3 = sm2\<lparr>wif := None\<rparr>"
          using st d stop_clears by blast
        from assms Some a Inr op b st d
        have "log = [StartCalled, OperationRun, StopCalled] \<and> sm' = sm3 \<and> t' = t3"
          by (cases r2) (auto simp: with_FinalizableSigner_def)
        with Some a Inr op b st d key cleared show ?thesis by auto
      qed
    qed
  qed
qed

text \<open>Without safe mode nothing polls: the session ends whenever the enclosed operation
  does.\<close>

lemma session_ends_without_safe_mode:
  assumes "\<not> safe_mode sm"
      and "\<And>sm1 t1. \<exists>r1 sm2 t2. operation sm1 t1 = Some (r1, sm2, t2) \<and> \<not> safe_mode sm2"
  shows "\<exists>res. with_FinalizableSigner h sm operation t = Some res"
proof -
  obtain r0 sm1 where st: "start h sm t = Some (r0, sm1, t)"
    using assms(1) by (cases "import_key h t (path_to_secret sm)") (auto simp: start_def)
  show ?thesis
  proof (cases r0)
    case (Inl e)
    with st show ?thesis by (simp add: with_FinalizableSigner_def)
  next
    case (Inr u)
    obtain r1 sm2 t2 where op: "operation sm1 t = Some (r1, sm2, t2)" and ns: "\<not> safe_mode sm2"
      using assms(2) by blast
    have "stop h sm2 t2 = Some (Inr (), sm2\<lparr>wif := None\<rparr>, t2)"
      using ns by (simp add: stop_def Let_def)
    with st Inr op show ?thesis by (simp add: with_FinalizableSigner_def)
  qed
qed

text \<open>
  Claim C8. Whenever a scoped session ends (\<open>Some\<close>), one of two things happened. Either
  \<open>start()\<close> raised: then the enclosed operation did not run and the manager is as it
  was before the session. Or \<open>start()\<close> returned with the secret loaded, then the
  operation ran on that manager, then \<open>stop()\<close> ran on the manager the operation left,
  whether the operation returned or raised, and the manager's secret is \<open>None\<close> at the
  end. So a manager that holds no secret when the session begins holds none when the
  session has ended, by whichever path.
\<close>

theorem scoped_session_start_stop:
  assumes "with_FinalizableSigner h sm operation t = Some (r, sm', t', log)"
  shows "((log = [StartCalled] \<and> isl r \<and> sm' = sm
           \<and> (\<exists>e t1. start h sm t = Some (Inl e, sm, t1)))
        \<or> (log = [StartCalled, OperationRun, StopCalled] \<and> wif sm' = None
           \<and> (\<exists>key t1 r1 sm2 t2 r2.
                 start h sm t = Some (Inr (), sm\<lparr>wif := Some key\<rparr>, t1)
               \<and> operation (sm\<lparr>wif := Some key\<rparr>) t1 = Some (r1, sm2, t2)
               \<and> stop h sm2 t2 = Some (r2, sm', t'))))
       \<and> (wif sm = None \<longrightarrow> wif sm' = None)"
  using session_paths [OF assms] by auto

theorem scoped_session_start_stop_witness:
  "with_FinalizableSigner example_host example_manager failing_operation 0 =
     Some (Inl (UnableToSignTxError ''Unable to sign transaction''),
           example_manager\<lparr>wif := None\<rparr>, 1, [StartCalled, OperationRun, StopCalled])
   \<and> start example_host example_manager 0 =
       Some (Inr (), example_manager\<lparr>wif := Some ''L1aW4aubDFB7yfras2S1mN''\<rparr>, 0)
   \<and> wif (example_manager\<lparr>wif := None\<rparr>) = None"
proof -
  have run: "with_FinalizableSigner example_host example_manager failing_operation 0 =
     Some (Inl (UnableToSignTxError ''Unable to sign transaction''),
           example_manager\<lparr>wif := None\<rparr>, 1, [StartCalled, OperationRun, StopCalled])"
    by (simp add: with_FinalizableSigner_def start_def stop_def example_host_def
        example_manager_def failing_operation_def check_internet_off.simps
        check_internet_on.simps internet_on_def import_key_def strip_def is_space_def)
  have key: "start example_host example_manager 0 =
       Some (Inr (), example_manager\<lparr>wif := Some ''L1aW4aubDFB7yfras2S1mN''\<rparr>, 0)"
    by (simp add: start_def example_host_def example_manager_def check_internet_off.simps
        internet_on_def import_key_def strip_def is_space_def)
  show ?thesis
    using scoped_session_start_stop [OF run] run key by simp
qed

section \<open>Signature verification: theorems\<close>

text \<open>
  Claim C9. For a certificate file that reads and parses as a document with a
  \<open>signature\<close> field, on which \<open>VerifyMessage\<close> gives a verdict: when the verdict is
  false, \<open>verify_signature\<close> raises \<open>UnverifiedSignatureError\<close>; when it is true,
  \<open>verify_signature\<close> returns (\<open>None\<close>) without raising. It has no other way to report
  a failed verification: its only return value is \<open>None\<close>.
\<close>

theorem verify_signature_raises_or_returns:
  assumes "read_file h t signed_cert_file_name = Inr signed_cert"
      and "json_loads v signed_cert = Inr signed_cert_json"
      and "json_getitem signed_cert_json ''signature'' = Inr signature"
      and "VerifyMessage v issuing_addr uid signature = Inr verified"
  shows "verify_signature v h t uid signed_cert_file_name issuing_addr =
           (if verified then Inr ()
            else Inl (UnverifiedSignatureError
                   (''There was a problem with the signature for certificate uid='' @ uid)))"
  using assms by (simp add: verify_signature_def verify_message_def)

theorem verify_signature_raises_or_returns_witness:
  "verify_signature example_verifier example_host 0 ''abc123'' ''cert.json'' ''1issuer'' = Inr ()
   \<and> verify_signature example_verifier example_host 0 ''abc124'' ''cert.json'' ''1issuer'' =
       Inl (UnverifiedSignatureError
              ''There was a problem with the signature for certificate uid=abc124'')"
  using verify_signature_raises_or_returns
          [of example_host 0 "''cert.json''" "''{signature: H9x=}''" example_verifier
              "JObj [(''signature'', JStr ''H9x='')]" "JStr ''H9x=''" "''1issuer''" "''abc123''"
              True]
        verify_signature_raises_or_returns
          [of example_host 0 "''cert.json''" "''{signature: H9x=}''" example_verifier
              "JObj [(''signature'', JStr ''H9x='')]" "JStr ''H9x=''" "''1issuer''" "''abc124''"
              False]
  by (simp add: example_host_def example_verifier_def)

end
